theory Spec2Isabelle
  imports Main "HOL-Library.Sublist"
begin

section \<open>Python strings\<close>

text \<open>
  A Python \<open>str\<close> is modelled as a \<open>string\<close>, one \<open>char\<close> per code point
  (code points 0 to 255). The functions of this section are the string operations of the
  Python library that \<open>research_engine.py\<close> calls: \<open>str.strip\<close>, the operator
  \<open>in\<close> on strings and \<open>textwrap.dedent\<close>.
\<close>

definition NL :: char where
  "NL = CHR 0x0A"

definition isspace :: "char \<Rightarrow> bool" where
  \<comment> \<open>\<open>str.isspace\<close> on one character: TAB, LF, VT, FF, CR, FS, GS, RS, US, SPACE, NEL, NBSP.\<close>
  "isspace c = (of_char c \<in> {9, 10, 11, 12, 13, 28, 29, 30, 31, 32, 133, 160 :: nat})"

definition strip :: "string \<Rightarrow> string" where
  \<comment> \<open>\<open>s.strip()\<close>: leading and trailing whitespace removed.\<close>
  "strip s = rev (dropWhile isspace (rev (dropWhile isspace s)))"

fun contains :: "string \<Rightarrow> string \<Rightarrow> bool" where
  \<comment> \<open>\<open>contains s sub\<close> is Python's \<open>sub in s\<close>.\<close>
  "contains [] sub = (sub = [])"
| "contains (c # cs) sub = (prefix sub (c # cs) \<or> contains cs sub)"

fun split_nl :: "string \<Rightarrow> string list" where
  \<comment> \<open>\<open>text.split("\n")\<close>\<close>
  "split_nl [] = [[]]"
| "split_nl (c # cs) =
     (if c = NL then [] # split_nl cs
      else (case split_nl cs of [] \<Rightarrow> [[c]] | l # ls \<Rightarrow> (c # l) # ls))"

fun join_nl :: "string list \<Rightarrow> string" where
  \<comment> \<open>\<open>"\n".join(lines)\<close>\<close>
  "join_nl [] = []"
| "join_nl [l] = l"
| "join_nl (l # ls) = l @ NL # join_nl ls"

subsection \<open>\<open>textwrap.dedent\<close>\<close>

text \<open>
  \<open>dedent\<close> follows the library's implementation (CPython 3.10 to 3.13), line by line:
  \<^enum> lines made of blanks and tabs only are emptied (the substitution of \<open>^[ \t]+$\<close>);
  \<^enum> the indent of every line that has another character is collected (\<open>^[ \t]*\<close> before
    a character that is none of blank, tab, newline);
  \<^enum> the margin is narrowed indent by indent;
  \<^enum> a non-empty margin is removed from the start of every line that starts with it.
\<close>

definition blank_or_tab :: "char \<Rightarrow> bool" where
  "blank_or_tab c = (c = CHR '' '' \<or> c = CHR 0x09)"

definition normalize_line :: "string \<Rightarrow> string" where
  "normalize_line l = (if list_all blank_or_tab l then [] else l)"

definition indents_of :: "string list \<Rightarrow> string list" where
  "indents_of ls = map (takeWhile blank_or_tab) (filter (\<lambda>l. dropWhile blank_or_tab l \<noteq> []) ls)"

fun trim_at_diff :: "string \<Rightarrow> string \<Rightarrow> string" where
  \<comment> \<open>the loop over \<open>zip(margin, indent)\<close>: the margin is cut at the first position where
      the two differ, and left as it is when the zip ends first.\<close>
  "trim_at_diff (x # xs) (y # ys) = (if x \<noteq> y then [] else x # trim_at_diff xs ys)"
| "trim_at_diff m _ = m"

fun margin_step :: "string option \<Rightarrow> string \<Rightarrow> string option" where
  "margin_step None indent = Some indent"
| "margin_step (Some margin) indent =
     (if prefix margin indent then Some margin
      else if prefix indent margin then Some indent
      else Some (trim_at_diff margin indent))"

definition remove_margin :: "string \<Rightarrow> string \<Rightarrow> string" where
  "remove_margin margin l = (if prefix margin l then drop (length margin) l else l)"

definition dedent :: "string \<Rightarrow> string" where
  "dedent text =
     (let ls = map normalize_line (split_nl text) in
      case foldl margin_step None (indents_of ls) of
        None \<Rightarrow> join_nl ls
      | Some margin \<Rightarrow>
          if margin = [] then join_nl ls else join_nl (map (remove_margin margin) ls))"

section \<open>PromptEngine\<close>

definition system_prompt_text :: string where
  \<comment> \<open>the triple-quoted literal of \<open>build_system_prompt\<close>\<close>
  "system_prompt_text = join_nl
    [ '''',
      ''            You are a scientific research assistant for students.'',
      ''            Produce rigorous yet easy-to-understand outputs.'',
      ''            Include evidence-oriented literature analysis, research gap detection,'',
      ''            a feasible student-level methodology, simulated quantitative results,'',
      ''            references, PPT outline, viva questions, and tools/datasets suggestions.'',
      ''            Return valid JSON only.'',
      ''            '' ]"

definition build_system_prompt :: string where
  "build_system_prompt = strip (dedent system_prompt_text)"

definition user_prompt_text :: "string \<Rightarrow> string \<Rightarrow> string" where
  \<comment> \<open>the f-string of \<open>build_user_prompt\<close>, with topic and query interpolated\<close>
  "user_prompt_text topic query = join_nl
    [ '''',
      ''            Student topic: '' @ topic,
      ''            Student research query: '' @ query,
      '''',
      ''            Return JSON with these keys exactly:'',
      ''            abstract, introduction, literature_review, research_gaps,'',
      ''            methodology, simulated_results, conclusion, references,'',
      ''            ppt_outline, viva_questions, datasets_and_tools.'',
      '''',
      ''            Requirements:'',
      ''            - literature_review must include source + finding entries from: Google Scholar, IEEE Xplore, PubMed'',
      ''            - methodology must include design + steps'',
      ''            - simulated_results must include summary + table[] with metric, baseline, proposed'',
      ''            - references must be a list of citation strings'',
      ''            - datasets_and_tools must include datasets[] and tools[]'',
      ''            '' ]"

definition build_user_prompt :: "string \<Rightarrow> string \<Rightarrow> string" where
  "build_user_prompt topic query = strip (dedent (user_prompt_text topic query))"

definition user_prompt_lines :: "string \<Rightarrow> string \<Rightarrow> string list" where
  \<comment> \<open>the lines of the template without their indentation, used to state what
      \<open>build_user_prompt\<close> returns on a topic and a query of one line each\<close>
  "user_prompt_lines topic query =
    [ ''Student topic: '' @ topic,
      ''Student research query: '' @ query,
      '''',
      ''Return JSON with these keys exactly:'',
      ''abstract, introduction, literature_review, research_gaps,'',
      ''methodology, simulated_results, conclusion, references,'',
      ''ppt_outline, viva_questions, datasets_and_tools.'',
      '''',
      ''Requirements:'',
      ''- literature_review must include source + finding entries from: Google Scholar, IEEE Xplore, PubMed'',
      ''- methodology must include design + steps'',
      ''- simulated_results must include summary + table[] with metric, baseline, proposed'',
      ''- references must be a list of citation strings'',
      ''- datasets_and_tools must include datasets[] and tools[]'' ]"

section \<open>Values, exceptions and the outside world\<close>

text \<open>
  The values that \<open>json.loads\<close> produces and that a report holds. A \<open>dict\<close> is an
  association list in insertion order. \<open>JFloat m e\<close> stands for the float written
  \<open>m\<close> times ten to the power \<open>e\<close>.
\<close>

datatype json =
    JNull
  | JBool bool
  | JInt int
  | JFloat int int
  | JString string
  | JArray "json list"
  | JObject "(string \<times> json) list"

type_synonym report = "(string \<times> json) list"

datatype exn =
    URLError
  | HTTPError
  | KeyError
  | JSONDecodeError
  | TimeoutError
  | IndexError
  | TypeError
  | AttributeError
  | UnicodeDecodeError
  | ConnectionError

record request =
  url :: string
  data :: json
  headers :: "(string \<times> string) list"
  http_method :: string

text \<open>
  What the function reads from outside the process: the environment variables, the
  reaction of the network to a request (\<open>urlopen\<close> followed by \<open>read\<close> and
  \<open>decode\<close>: an exception, or the text of the body) and the parser \<open>json.loads\<close>
  on a \<open>str\<close> (\<open>None\<close> is \<open>JSONDecodeError\<close>).
\<close>

record world =
  environ :: "string \<rightharpoonup> string"
  urlopen :: "request \<Rightarrow> nat \<Rightarrow> exn + string"
  json_loads :: "string \<Rightarrow> json option"

definition getenv :: "world \<Rightarrow> string \<Rightarrow> string \<Rightarrow> string" where
  \<comment> \<open>\<open>os.getenv(key, default)\<close>\<close>
  "getenv w key dflt = (case environ w key of None \<Rightarrow> dflt | Some v \<Rightarrow> v)"

definition bind :: "exn + 'a \<Rightarrow> ('a \<Rightarrow> exn + 'b) \<Rightarrow> exn + 'b" where
  \<comment> \<open>sequencing: an exception ends the block\<close>
  "bind m f = (case m of Inl e \<Rightarrow> Inl e | Inr x \<Rightarrow> f x)"

fun getitem_str :: "json \<Rightarrow> string \<Rightarrow> exn + json" where
  \<comment> \<open>\<open>obj[key]\<close> with a \<open>str\<close> key\<close>
  "getitem_str (JObject kvs) key = (case map_of kvs key of None \<Rightarrow> Inl KeyError | Some v \<Rightarrow> Inr v)"
| "getitem_str _ key = Inl TypeError"

fun getitem_0 :: "json \<Rightarrow> exn + json" where
  \<comment> \<open>\<open>obj[0]\<close>; the keys of a parsed JSON object are all \<open>str\<close>, so \<open>0\<close> is never one\<close>
  "getitem_0 (JObject kvs) = Inl KeyError"
| "getitem_0 (JArray []) = Inl IndexError"
| "getitem_0 (JArray (x # xs)) = Inr x"
| "getitem_0 (JString []) = Inl IndexError"
| "getitem_0 (JString (c # cs)) = Inr (JString [c])"
| "getitem_0 _ = Inl TypeError"

fun loads :: "world \<Rightarrow> json \<Rightarrow> exn + json" where
  \<comment> \<open>\<open>json.loads(v)\<close> on a value: only a \<open>str\<close> is accepted\<close>
  "loads w (JString s) = (case json_loads w s of None \<Rightarrow> Inl JSONDecodeError | Some j \<Rightarrow> Inr j)"
| "loads w _ = Inl TypeError"

fun dict_set :: "report \<Rightarrow> string \<Rightarrow> json \<Rightarrow> report" where
  \<comment> \<open>\<open>d[key] = v\<close>: the value of an existing key is replaced, a new key goes last\<close>
  "dict_set [] key v = [(key, v)]"
| "dict_set ((k, x) # kvs) key v =
     (if k = key then (k, v) # kvs else (k, x) # dict_set kvs key v)"

section \<open>ResearchService\<close>

definition REQUIRED_KEYS :: "string set" where
  "REQUIRED_KEYS =
     { ''abstract'', ''introduction'', ''literature_review'', ''research_gaps'',
       ''methodology'', ''simulated_results'', ''conclusion'', ''references'',
       ''ppt_outline'', ''viva_questions'', ''datasets_and_tools'' }"

definition simulate_sources :: "string \<Rightarrow> json list" where
  "simulate_sources topic =
     [ JObject
         [ (''source'', JString ''Google Scholar''),
           (''finding'', JString (''Recent studies on '' @ topic @
              '' show measurable gains from hybrid and retrieval-augmented AI pipelines.'')) ],
       JObject
         [ (''source'', JString ''IEEE Xplore''),
           (''finding'', JString
              (''Engineering papers report trade-offs between model accuracy, latency, and deployment cost in ''
               @ topic @ '' systems.'')) ],
       JObject
         [ (''source'', JString ''PubMed''),
           (''finding'', JString
              (''Human-impact studies emphasize ethics, safety, and reproducibility for ''
               @ topic @ ''-related interventions.'')) ] ]"

definition fallback_report :: "string \<Rightarrow> string \<Rightarrow> report" where
  "fallback_report topic query =
     [ (''abstract'', JString
          (''This project investigates '' @ topic @ '' with a scientist-style workflow. '' @
           ''It addresses '' @ CHR 0x27 # query @ CHR 0x27 #
           '' through literature synthesis, gap detection, and a practical student-level methodology.'')),
       (''introduction'', JString
          (topic @ '' is an important research area in both academia and industry. '' @
           ''This report explains the current state of knowledge and where a student can contribute new findings.'')),
       (''literature_review'', JArray (simulate_sources topic)),
       (''research_gaps'', JArray
          [ JString ''Limited benchmarking in low-resource student lab environments.'',
            JString ''Inconsistent reproducibility due to missing open protocols and code-sharing.'',
            JString ''Few studies jointly evaluate technical performance and real-world usability.'' ]),
       (''methodology'', JObject
          [ (''design'', JString
               ''Mixed-method design: quantitative model benchmarking plus qualitative expert/student feedback.''),
            (''steps'', JArray
               [ JString ''Collect and preprocess open datasets relevant to the topic.'',
                 JString ''Implement baseline methods and at least one improved approach.'',
                 JString ''Measure performance with Accuracy, F1, precision/recall, and latency.'',
                 JString ''Analyze error patterns and compare findings with published work.'',
                 JString ''Summarize limitations and propose future experiments.'' ]) ]),
       (''simulated_results'', JObject
          [ (''summary'', JString
               ''The proposed method is expected to improve baseline quality metrics while maintaining practical inference speed.''),
            (''table'', JArray
               [ JObject [(''metric'', JString ''Accuracy''), (''baseline'', JString ''78%''),
                          (''proposed'', JString ''86%'')],
                 JObject [(''metric'', JString ''F1 Score''), (''baseline'', JString ''0.74''),
                          (''proposed'', JString ''0.83'')],
                 JObject [(''metric'', JString ''Latency''), (''baseline'', JString ''210ms''),
                          (''proposed'', JString ''185ms'')] ]) ]),
       (''conclusion'', JString
          (''The study offers a feasible roadmap for student research on '' @ topic @ ''. '' @
           ''It identifies concrete research gaps and a publishable experiment plan.'')),
       (''references'', JArray
          [ JString (''A. Kumar et al. (2023). Advances in '' @ topic @
                     ''. Journal of Student Research, 12(4), 1-20.''),
            JString (''L. Chen & P. Smith (2022). Benchmarking '' @ topic @
                     '' systems under practical constraints. IEEE Learning Systems.''),
            JString (''R. Diaz et al. (2024). Reproducibility and ethics in '' @ topic @
                     ''. International Review of Applied AI.'') ]),
       (''ppt_outline'', JArray
          [ JString ''Problem statement and motivation'',
            JString ''Literature landscape and gap analysis'',
            JString ''Research objectives and hypotheses'',
            JString ''Methodology and experimental setup'',
            JString ''Simulated/expected results'',
            JString ''Conclusion, limitations, and future work'' ]),
       (''viva_questions'', JArray
          [ JString ''Why did you choose this topic and what problem does it solve?'',
            JString ''How is your methodology better or different than prior work?'',
            JString ''What are the strongest limitations of your current design?'',
            JString ''How would you validate generalization on larger or noisier datasets?'',
            JString ''What ethical or bias issues could affect your findings?'' ]),
       (''datasets_and_tools'', JObject
          [ (''datasets'', JArray
               [ JString ''Kaggle domain datasets'',
                 JString ''UCI Machine Learning Repository'',
                 JString ''Government open-data portals'' ]),
            (''tools'', JArray
               [ JString ''Python (Pandas, scikit-learn, PyTorch)'',
                 JString ''Jupyter Notebook'',
                 JString ''Zotero or Mendeley'',
                 JString ''Tableau or Power BI'' ]) ]) ]"

definition chat_request :: "world \<Rightarrow> string \<Rightarrow> string \<Rightarrow> string \<Rightarrow> request" where
  \<comment> \<open>\<open>model\<close>, \<open>payload\<close> and \<open>req\<close> of \<open>_try_openai_json\<close>; \<open>data\<close> holds the payload
      that \<open>json.dumps\<close> serialises\<close>
  "chat_request w api_key topic query =
     (let model = getenv w ''OPENAI_MODEL'' ''gpt-4o-mini'';
          payload = JObject
            [ (''model'', JString model),
              (''messages'', JArray
                 [ JObject [(''role'', JString ''system''), (''content'', JString build_system_prompt)],
                   JObject [(''role'', JString ''user''),
                            (''content'', JString (build_user_prompt topic query))] ]),
              (''temperature'', JFloat 2 (- 1)),
              (''response_format'', JObject [(''type'', JString ''json_object'')]) ]
      in \<lparr> url = ''https://api.openai.com/v1/chat/completions'',
           data = payload,
           headers = [ (''Authorization'', ''Bearer '' @ api_key),
                       (''Content-Type'', ''application/json'') ],
           http_method = ''POST'' \<rparr>)"

definition message_content :: "json \<Rightarrow> exn + json" where
  \<comment> \<open>\<open>raw["choices"][0]["message"]["content"]\<close>\<close>
  "message_content raw =
     bind (getitem_str raw ''choices'') (\<lambda>choices.
     bind (getitem_0 choices) (\<lambda>choice.
     bind (getitem_str choice ''message'') (\<lambda>message.
     getitem_str message ''content'')))"

fun validate :: "json \<Rightarrow> exn + report option" where
  \<comment> \<open>\<open>if cls.REQUIRED_KEYS.issubset(set(parsed.keys())): return parsed\<close>, and the
      \<open>return None\<close> after the \<open>try\<close> statement otherwise; only a \<open>dict\<close> has \<open>keys\<close>\<close>
  "validate (JObject kvs) = Inr (if REQUIRED_KEYS \<subseteq> set (map fst kvs) then Some kvs else None)"
| "validate _ = Inl AttributeError"

definition try_block :: "world \<Rightarrow> request \<Rightarrow> exn + report option" where
  \<comment> \<open>the body of the \<open>try\<close> statement\<close>
  "try_block w req =
     bind (urlopen w req 45) (\<lambda>body.
     bind (loads w (JString body)) (\<lambda>raw.
     bind (message_content raw) (\<lambda>content.
     bind (loads w content) (\<lambda>parsed.
     validate parsed))))"

definition handled :: "exn \<Rightarrow> bool" where
  \<comment> \<open>the \<open>except\<close> clause\<close>
  "handled e = (e \<in> {URLError, HTTPError, KeyError, JSONDecodeError, TimeoutError})"

definition try_openai_json :: "world \<Rightarrow> string \<Rightarrow> string \<Rightarrow> request list \<times> (exn + report option)" where
  \<comment> \<open>The result is the list of the requests sent with \<open>urlopen\<close>, and either the exception
      that leaves the function or the value returned (\<open>None\<close> or a report).\<close>
  "try_openai_json w topic query =
     (let api_key = strip (getenv w ''OPENAI_API_KEY'' '''') in
      if api_key = [] then ([], Inr None)
      else
        let req = chat_request w api_key topic query in
        ([req],
         case try_block w req of
           Inl e \<Rightarrow> if handled e then Inr None else Inl e
         | Inr r \<Rightarrow> Inr r))"

definition prompt_debug :: "string \<Rightarrow> string \<Rightarrow> json" where
  "prompt_debug topic query =
     JObject [ (''system_prompt'', JString build_system_prompt),
               (''user_prompt'', JString (build_user_prompt topic query)),
               (''source'', JString ''fallback'') ]"

fun truthy :: "report option \<Rightarrow> bool" where
  \<comment> \<open>\<open>if external:\<close> on \<open>None\<close> or a \<open>dict\<close>\<close>
  "truthy None = False"
| "truthy (Some r) = (r \<noteq> [])"

definition tagged_fallback :: "string \<Rightarrow> string \<Rightarrow> report" where
  \<comment> \<open>the last four statements of \<open>generate_report\<close>: the fallback report with
      \<open>report["prompt_debug"]\<close> assigned\<close>
  "tagged_fallback topic query =
     dict_set (fallback_report topic query) ''prompt_debug'' (prompt_debug topic query)"

definition generate_report :: "world \<Rightarrow> string \<Rightarrow> string \<Rightarrow> request list \<times> (exn + report)" where
  \<comment> \<open>An exception of \<open>_try_openai_json\<close> leaves \<open>generate_report\<close> as it is: there is
      no handler here.\<close>
  "generate_report w topic query =
     (case try_openai_json w topic query of
        (sent, Inl e) \<Rightarrow> (sent, Inl e)
      | (sent, Inr external) \<Rightarrow>
          (sent,
           Inr (case external of
                  None \<Rightarrow> tagged_fallback topic query
                | Some r \<Rightarrow> if truthy external then r else tagged_fallback topic query)))"

section \<open>The body of \<open>_fallback_report\<close> as a program\<close>

text \<open>
  To state that \<open>_fallback_report\<close> depends on nothing but its two arguments, its body
  is also given as an expression and run by an evaluator that has the outside world at
  hand: the environment variables and the network of \<open>world\<close>, and the clock. The
  expressions are those of the module: string literals, names, f-strings (and adjacent
  literals, which Python concatenates), list and dict displays, the call of a method of
  the class, \<open>os.getenv\<close>, \<open>request.urlopen\<close> and the reading of the clock. The result
  of an evaluation is the list of the requests sent and a value or a failure.
\<close>

record ambient =
  outside :: world
  clock :: int

datatype failure =
    Raised exn
  | NameError string
  | Unsupported

datatype expr =
    Str string
  | Name string
  | FString "expr list"
  | ListDisplay "expr list"
  | DictDisplay "(string \<times> expr) list"
  | Call "string list" expr "expr list"
  | Getenv string string
  | Urlopen request
  | Now

fun format_parts :: "json list \<Rightarrow> failure + string" where
  \<comment> \<open>the parts of an f-string joined; only \<open>str\<close> parts are in the fragment\<close>
  "format_parts [] = Inr []"
| "format_parts (JString s # vs) =
     (case format_parts vs of Inl f \<Rightarrow> Inl f | Inr rest \<Rightarrow> Inr (s @ rest))"
| "format_parts (_ # vs) = Inl Unsupported"

fun eval :: "ambient \<Rightarrow> (string \<rightharpoonup> json) \<Rightarrow> expr \<Rightarrow> request list \<times> (failure + json)"
  and eval_list :: "ambient \<Rightarrow> (string \<rightharpoonup> json) \<Rightarrow> expr list \<Rightarrow> request list \<times> (failure + json list)"
  and eval_items :: "ambient \<Rightarrow> (string \<rightharpoonup> json) \<Rightarrow> (string \<times> expr) list \<Rightarrow>
                       request list \<times> (failure + (string \<times> json) list)"
where
  "eval a env (Str s) = ([], Inr (JString s))"
| "eval a env (Name x) =
     (case env x of None \<Rightarrow> ([], Inl (NameError x)) | Some v \<Rightarrow> ([], Inr v))"
| "eval a env (FString es) =
     (case eval_list a env es of
        (sent, Inl f) \<Rightarrow> (sent, Inl f)
      | (sent, Inr vs) \<Rightarrow>
          (sent, case format_parts vs of Inl f \<Rightarrow> Inl f | Inr s \<Rightarrow> Inr (JString s)))"
| "eval a env (ListDisplay es) =
     (case eval_list a env es of
        (sent, Inl f) \<Rightarrow> (sent, Inl f)
      | (sent, Inr vs) \<Rightarrow> (sent, Inr (JArray vs)))"
| "eval a env (DictDisplay items) =
     (case eval_items a env items of
        (sent, Inl f) \<Rightarrow> (sent, Inl f)
      | (sent, Inr kvs) \<Rightarrow> (sent, Inr (JObject (foldl (\<lambda>d (k, v). dict_set d k v) [] kvs))))"
| "eval a env (Call params body args) =
     (case eval_list a env args of
        (sent, Inl f) \<Rightarrow> (sent, Inl f)
      | (sent, Inr vs) \<Rightarrow>
          if length vs \<noteq> length params then (sent, Inl (Raised TypeError))
          else (case eval a (map_of (zip params vs)) body of
                  (sent', r) \<Rightarrow> (sent @ sent', r)))"
| "eval a env (Getenv key dflt) = ([], Inr (JString (getenv (outside a) key dflt)))"
| "eval a env (Urlopen req) =
     ([req], case urlopen (outside a) req 45 of
               Inl e \<Rightarrow> Inl (Raised e)
             | Inr body \<Rightarrow> Inr (JString body))"
| "eval a env Now = ([], Inr (JInt (clock a)))"
| "eval_list a env [] = ([], Inr [])"
| "eval_list a env (e # es) =
     (case eval a env e of
        (sent, Inl f) \<Rightarrow> (sent, Inl f)
      | (sent, Inr v) \<Rightarrow>
          (case eval_list a env es of
             (sent', Inl f) \<Rightarrow> (sent @ sent', Inl f)
           | (sent', Inr vs) \<Rightarrow> (sent @ sent', Inr (v # vs))))"
| "eval_items a env [] = ([], Inr [])"
| "eval_items a env ((k, e) # items) =
     (case eval a env e of
        (sent, Inl f) \<Rightarrow> (sent, Inl f)
      | (sent, Inr v) \<Rightarrow>
          (case eval_items a env items of
             (sent', Inl f) \<Rightarrow> (sent @ sent', Inl f)
           | (sent', Inr kvs) \<Rightarrow> (sent @ sent', Inr ((k, v) # kvs))))"

definition simulate_sources_body :: expr where
  "simulate_sources_body =
     ListDisplay
       [ DictDisplay
           [ (''source'', Str ''Google Scholar''),
             (''finding'', FString
                [ Str ''Recent studies on '', Name ''topic'',
                  Str '' show measurable gains from hybrid and retrieval-augmented AI pipelines.'' ]) ],
         DictDisplay
           [ (''source'', Str ''IEEE Xplore''),
             (''finding'', FString
                [ Str ''Engineering papers report trade-offs between model accuracy, latency, and deployment cost in '',
                  Name ''topic'', Str '' systems.'' ]) ],
         DictDisplay
           [ (''source'', Str ''PubMed''),
             (''finding'', FString
                [ Str ''Human-impact studies emphasize ethics, safety, and reproducibility for '',
                  Name ''topic'', Str ''-related interventions.'' ]) ] ]"

definition fallback_report_body :: expr where
  "fallback_report_body =
     DictDisplay
       [ (''abstract'', FString
            [ Str ''This project investigates '', Name ''topic'',
              Str '' with a scientist-style workflow. '',
              Str (''It addresses '' @ [CHR 0x27]), Name ''query'',
              Str (CHR 0x27 #
                '' through literature synthesis, gap detection, and a practical student-level methodology.'') ]),
         (''introduction'', FString
            [ Name ''topic'',
              Str '' is an important research area in both academia and industry. '',
              Str ''This report explains the current state of knowledge and where a student can contribute new findings.'' ]),
         (''literature_review'', Call [''topic''] simulate_sources_body [Name ''topic'']),
         (''research_gaps'', ListDisplay
            [ Str ''Limited benchmarking in low-resource student lab environments.'',
              Str ''Inconsistent reproducibility due to missing open protocols and code-sharing.'',
              Str ''Few studies jointly evaluate technical performance and real-world usability.'' ]),
         (''methodology'', DictDisplay
            [ (''design'', Str
                 ''Mixed-method design: quantitative model benchmarking plus qualitative expert/student feedback.''),
              (''steps'', ListDisplay
                 [ Str ''Collect and preprocess open datasets relevant to the topic.'',
                   Str ''Implement baseline methods and at least one improved approach.'',
                   Str ''Measure performance with Accuracy, F1, precision/recall, and latency.'',
                   Str ''Analyze error patterns and compare findings with published work.'',
                   Str ''Summarize limitations and propose future experiments.'' ]) ]),
         (''simulated_results'', DictDisplay
            [ (''summary'', Str
                 ''The proposed method is expected to improve baseline quality metrics while maintaining practical inference speed.''),
              (''table'', ListDisplay
                 [ DictDisplay [(''metric'', Str ''Accuracy''), (''baseline'', Str ''78%''),
                                (''proposed'', Str ''86%'')],
                   DictDisplay [(''metric'', Str ''F1 Score''), (''baseline'', Str ''0.74''),
                                (''proposed'', Str ''0.83'')],
                   DictDisplay [(''metric'', Str ''Latency''), (''baseline'', Str ''210ms''),
                                (''proposed'', Str ''185ms'')] ]) ]),
         (''conclusion'', FString
            [ Str ''The study offers a feasible roadmap for student research on '', Name ''topic'',
              Str ''. '',
              Str ''It identifies concrete research gaps and a publishable experiment plan.'' ]),
         (''references'', ListDisplay
            [ FString [ Str ''A. Kumar et al. (2023). Advances in '', Name ''topic'',
                        Str ''. Journal of Student Research, 12(4), 1-20.'' ],
              FString [ Str ''L. Chen & P. Smith (2022). Benchmarking '', Name ''topic'',
                        Str '' systems under practical constraints. IEEE Learning Systems.'' ],
              FString [ Str ''R. Diaz et al. (2024). Reproducibility and ethics in '', Name ''topic'',
                        Str ''. International Review of Applied AI.'' ] ]),
         (''ppt_outline'', ListDisplay
            [ Str ''Problem statement and motivation'',
              Str ''Literature landscape and gap analysis'',
              Str ''Research objectives and hypotheses'',
              Str ''Methodology and experimental setup'',
              Str ''Simulated/expected results'',
              Str ''Conclusion, limitations, and future work'' ]),
         (''viva_questions'', ListDisplay
            [ Str ''Why did you choose this topic and what problem does it solve?'',
              Str ''How is your methodology better or different than prior work?'',
              Str ''What are the strongest limitations of your current design?'',
              Str ''How would you validate generalization on larger or noisier datasets?'',
              Str ''What ethical or bias issues could affect your findings?'' ]),
         (''datasets_and_tools'', DictDisplay
            [ (''datasets'', ListDisplay
                 [ Str ''Kaggle domain datasets'',
                   Str ''UCI Machine Learning Repository'',
                   Str ''Government open-data portals'' ]),
              (''tools'', ListDisplay
                 [ Str ''Python (Pandas, scikit-learn, PyTorch)'',
                   Str ''Jupyter Notebook'',
                   Str ''Zotero or Mendeley'',
                   Str ''Tableau or Power BI'' ]) ]) ]"

definition arguments :: "string \<Rightarrow> string \<Rightarrow> (string \<rightharpoonup> json)" where
  \<comment> \<open>the parameters of \<open>_fallback_report\<close> bound to the arguments of a call\<close>
  "arguments topic query = [''topic'' \<mapsto> JString topic, ''query'' \<mapsto> JString query]"

definition run_fallback_report :: "ambient \<Rightarrow> string \<Rightarrow> string \<Rightarrow> request list \<times> (failure + json)" where
  \<comment> \<open>the call \<open>cls._fallback_report(topic, query)\<close> with the outside in the state \<open>a\<close>\<close>
  "run_fallback_report a topic query = eval a (arguments topic query) fallback_report_body"

section \<open>The shapes of the data model\<close>

text \<open>
  The value shapes that the data model of the specification gives to the eleven required
  keys, as a predicate on a report.
\<close>

fun is_str :: "json \<Rightarrow> bool" where
  "is_str (JString s) = True"
| "is_str _ = False"

fun nonempty_str :: "json \<Rightarrow> bool" where
  "nonempty_str (JString s) = (s \<noteq> [])"
| "nonempty_str _ = False"

fun nonempty_str_list :: "json \<Rightarrow> bool" where
  "nonempty_str_list (JArray xs) = (xs \<noteq> [] \<and> list_all is_str xs)"
| "nonempty_str_list _ = False"

definition field :: "(string \<times> json) list \<Rightarrow> string \<Rightarrow> (json \<Rightarrow> bool) \<Rightarrow> bool" where
  "field kvs k P = (case map_of kvs k of None \<Rightarrow> False | Some v \<Rightarrow> P v)"

fun str_fields :: "string list \<Rightarrow> json \<Rightarrow> bool" where
  "str_fields ks (JObject kvs) = list_all (\<lambda>k. field kvs k is_str) ks"
| "str_fields ks _ = False"

fun literature_shape :: "json \<Rightarrow> bool" where
  "literature_shape (JArray xs) = list_all (str_fields [''source'', ''finding'']) xs"
| "literature_shape _ = False"

fun methodology_shape :: "json \<Rightarrow> bool" where
  "methodology_shape (JObject kvs) = (field kvs ''design'' is_str \<and> field kvs ''steps'' nonempty_str_list)"
| "methodology_shape _ = False"

fun table_shape :: "json \<Rightarrow> bool" where
  "table_shape (JArray xs) =
     (xs \<noteq> [] \<and> list_all (str_fields [''metric'', ''baseline'', ''proposed'']) xs)"
| "table_shape _ = False"

fun results_shape :: "json \<Rightarrow> bool" where
  "results_shape (JObject kvs) = (field kvs ''summary'' is_str \<and> field kvs ''table'' table_shape)"
| "results_shape _ = False"

fun datasets_tools_shape :: "json \<Rightarrow> bool" where
  "datasets_tools_shape (JObject kvs) =
     (field kvs ''datasets'' nonempty_str_list \<and> field kvs ''tools'' nonempty_str_list)"
| "datasets_tools_shape _ = False"

definition report_shape :: "report \<Rightarrow> bool" where
  "report_shape r =
     (field r ''abstract'' nonempty_str \<and>
      field r ''introduction'' nonempty_str \<and>
      field r ''literature_review'' literature_shape \<and>
      field r ''research_gaps'' nonempty_str_list \<and>
      field r ''methodology'' methodology_shape \<and>
      field r ''simulated_results'' results_shape \<and>
      field r ''conclusion'' nonempty_str \<and>
      field r ''references'' nonempty_str_list \<and>
      field r ''ppt_outline'' nonempty_str_list \<and>
      field r ''viva_questions'' nonempty_str_list \<and>
      field r ''datasets_and_tools'' datasets_tools_shape)"

section \<open>Sample worlds\<close>

text \<open>
  Concrete worlds on which the functions are evaluated. A provider world has a credential
  and a network that answers every request with one fixed body; its \<open>json_loads\<close> is
  the table of what \<open>json.loads\<close> returns on the texts that occur.
\<close>

definition no_credential :: world where
  "no_credential =
     \<lparr> environ = Map.empty, urlopen = (\<lambda>req t. Inl URLError), json_loads = (\<lambda>s. None) \<rparr>"

definition unreachable :: world where
  "unreachable =
     \<lparr> environ = [''OPENAI_API_KEY'' \<mapsto> ''sk-test''],
       urlopen = (\<lambda>req t. Inl URLError), json_loads = (\<lambda>s. None) \<rparr>"

definition blank_credential :: world where
  "blank_credential =
     \<lparr> environ = [''OPENAI_API_KEY'' \<mapsto> [CHR '' '', CHR 0x09, NL]],
       urlopen = (\<lambda>req t. Inl URLError), json_loads = (\<lambda>s. None) \<rparr>"

definition provider :: "string \<Rightarrow> (string \<times> json) list \<Rightarrow> world" where
  "provider body parses =
     \<lparr> environ = [''OPENAI_API_KEY'' \<mapsto> ''sk-test''],
       urlopen = (\<lambda>req t. Inr body), json_loads = map_of parses \<rparr>"

definition completion :: "string \<Rightarrow> json" where
  \<comment> \<open>a chat completion whose first choice carries the text \<open>content\<close>\<close>
  "completion content =
     JObject [(''choices'', JArray [JObject [(''message'', JObject [(''content'', JString content)])]])]"

definition json_quote :: "string \<Rightarrow> string" where
  \<comment> \<open>the JSON string literal of a text without control characters\<close>
  "json_quote s =
     CHR 0x22 # concat (map (\<lambda>c. if c = CHR 0x22 \<or> c = CHR 0x5C then [CHR 0x5C, c] else [c]) s)
       @ [CHR 0x22]"

definition completion_text :: "string \<Rightarrow> string" where
  \<comment> \<open>the body of the response with the completion of \<open>content\<close>\<close>
  \<open>completion_text content = ''{"choices": [{"message": {"content": '' @ json_quote content @ ''}}]}''\<close>

definition empty_choices :: world where
  \<open>empty_choices =
     provider ''{"choices": []}'' [(''{"choices": []}'', JObject [(''choices'', JArray [])])]\<close>

definition list_content :: world where
  "list_content =
     provider (completion_text ''[]'') [(completion_text ''[]'', completion ''[]''), (''[]'', JArray [])]"

definition null_text :: string where
  \<open>null_text = ''{"abstract": null, "introduction": null, "literature_review": null, "research_gaps": null, "methodology": null, "simulated_results": null, "conclusion": null, "references": null, "ppt_outline": null, "viva_questions": null, "datasets_and_tools": null}''\<close>

definition null_report :: report where
  "null_report =
     [ (''abstract'', JNull), (''introduction'', JNull), (''literature_review'', JNull),
       (''research_gaps'', JNull), (''methodology'', JNull), (''simulated_results'', JNull),
       (''conclusion'', JNull), (''references'', JNull), (''ppt_outline'', JNull),
       (''viva_questions'', JNull), (''datasets_and_tools'', JNull) ]"

definition null_provider :: world where
  "null_provider =
     provider (completion_text null_text)
       [(completion_text null_text, completion null_text), (null_text, JObject null_report)]"

definition tagged_text :: string where
  \<open>tagged_text = ''{"abstract": null, "introduction": null, "literature_review": null, "research_gaps": null, "methodology": null, "simulated_results": null, "conclusion": null, "references": null, "ppt_outline": null, "viva_questions": null, "datasets_and_tools": null, "prompt_debug": {"source": "provider"}}''\<close>

definition tagged_report :: report where
  "tagged_report = null_report @ [(''prompt_debug'', JObject [(''source'', JString ''provider'')])]"

definition tagging_provider :: world where
  "tagging_provider =
     provider (completion_text tagged_text)
       [(completion_text tagged_text, completion tagged_text), (tagged_text, JObject tagged_report)]"

definition partial_text :: string where
  \<open>partial_text = ''{"abstract": "A", "introduction": "B"}''\<close>

definition partial_provider :: world where
  "partial_provider =
     provider (completion_text partial_text)
       [ (completion_text partial_text, completion partial_text),
         (partial_text, JObject [(''abstract'', JString ''A''), (''introduction'', JString ''B'')]) ]"

section \<open>Auxiliary lemmas\<close>

lemma strip_blank: "list_all isspace s \<Longrightarrow> strip s = []"
proof -
  assume "list_all isspace s"
  then have "dropWhile isspace s = []" by (induction s) auto
  then have "rev (dropWhile isspace (rev (dropWhile isspace s))) = rev (dropWhile isspace (rev []))"
    by (simp only:)
  then show ?thesis by (simp add: strip_def)
qed

lemma contains_iff: "contains s sub \<longleftrightarrow> (\<exists>p q. s = p @ sub @ q)"
proof (induction s)
  case Nil
  then show ?case by auto
next
  case (Cons c cs)
  show ?case
  proof
    assume "contains (c # cs) sub"
    then consider "prefix sub (c # cs)" | "contains cs sub" by auto
    then show "\<exists>p q. c # cs = p @ sub @ q"
    proof cases
      case 1
      then obtain q where "c # cs = sub @ q" by (auto simp: prefix_def)
      then have "c # cs = [] @ sub @ q" by simp
      then show ?thesis by blast
    next
      case 2
      with Cons.IH obtain p q where "cs = p @ sub @ q" by blast
      then have "c # cs = (c # p) @ sub @ q" by simp
      then show ?thesis by blast
    qed
  next
    assume "\<exists>p q. c # cs = p @ sub @ q"
    then obtain p q where pq: "c # cs = p @ sub @ q" by blast
    show "contains (c # cs) sub"
    proof (cases p)
      case Nil
      with pq have "prefix sub (c # cs)" by (simp add: prefix_def)
      then show ?thesis by simp
    next
      case (Cons a p')
      with pq have "cs = p' @ sub @ q" by simp
      with Cons.IH have "contains cs sub" by blast
      then show ?thesis by simp
    qed
  qed
qed

lemma contains_middle: "contains (p @ sub @ q) sub"
  unfolding contains_iff by blast

lemma validate_Some: "validate p = Inr (Some r) \<Longrightarrow> p = JObject r \<and> REQUIRED_KEYS \<subseteq> set (map fst r)"
  by (cases p) (auto split: if_splits)

lemma try_block_Some: "try_block w req = Inr (Some r) \<Longrightarrow> REQUIRED_KEYS \<subseteq> set (map fst r)"
proof -
  assume "try_block w req = Inr (Some r)"
  then obtain p where "validate p = Inr (Some r)"
    by (auto simp: try_block_def bind_def split: sum.splits)
  then show ?thesis by (simp only: validate_Some)
qed

lemma try_openai_json_Some:
  "try_openai_json w topic query = (sent, Inr (Some r)) \<Longrightarrow> REQUIRED_KEYS \<subseteq> set (map fst r)"
proof -
  assume "try_openai_json w topic query = (sent, Inr (Some r))"
  then obtain req where "try_block w req = Inr (Some r)"
    by (auto simp: try_openai_json_def Let_def split: if_splits sum.splits)
  then show ?thesis by (rule try_block_Some)
qed

lemma required_nonempty: "REQUIRED_KEYS \<subseteq> set (map fst r) \<Longrightarrow> r \<noteq> []"
  by (auto simp: REQUIRED_KEYS_def)

lemma keys_dict_set: "set (map fst (dict_set r k v)) = insert k (set (map fst r))"
  by (induction r k v rule: dict_set.induct) auto

lemma map_of_dict_set: "map_of (dict_set r k v) k' = (if k' = k then Some v else map_of r k')"
  by (induction r k v rule: dict_set.induct) auto

lemma keys_fallback_report: "set (map fst (fallback_report topic query)) = REQUIRED_KEYS"
  by (simp add: fallback_report_def REQUIRED_KEYS_def)

lemma keys_tagged_fallback: "REQUIRED_KEYS \<subseteq> set (map fst (tagged_fallback topic query))"
  unfolding tagged_fallback_def keys_dict_set keys_fallback_report by blast

lemma shape_fallback_report: "report_shape (fallback_report topic query)"
  by (simp add: report_shape_def fallback_report_def field_def simulate_sources_def)

lemma field_dict_set: "k' \<noteq> k \<Longrightarrow> field (dict_set r k v) k' P = field r k' P"
  by (simp add: field_def map_of_dict_set)

lemma shape_tagged_fallback: "report_shape (tagged_fallback topic query)"
  using shape_fallback_report [of topic query]
  by (simp add: report_shape_def tagged_fallback_def field_dict_set)

lemma generate_report_fallback:
  "try_openai_json w topic query = (sent, Inr None) \<Longrightarrow>
   generate_report w topic query = (sent, Inr (tagged_fallback topic query))"
  by (simp add: generate_report_def)

lemma generate_report_external:
  "try_openai_json w topic query = (sent, Inr (Some r)) \<Longrightarrow>
   generate_report w topic query = (sent, Inr r)"
  using try_openai_json_Some [of w topic query sent r] required_nonempty [of r]
  by (simp add: generate_report_def)

lemma generate_report_keys:
  "generate_report w topic query = (sent, Inr r) \<Longrightarrow> REQUIRED_KEYS \<subseteq> set (map fst r)"
proof -
  assume g: "generate_report w topic query = (sent, Inr r)"
  obtain sent' res where t: "try_openai_json w topic query = (sent', res)"
    by (cases "try_openai_json w topic query")
  show ?thesis
  proof (cases res)
    case (Inl e)
    with g t show ?thesis by (simp add: generate_report_def)
  next
    case (Inr external)
    show ?thesis
    proof (cases external)
      case None
      with g t Inr have "r = tagged_fallback topic query"
        by (simp add: generate_report_def)
      then show ?thesis by (simp only: keys_tagged_fallback)
    next
      case (Some ext)
      with t Inr have e: "try_openai_json w topic query = (sent', Inr (Some ext))" by simp
      from generate_report_external [OF e] g have "r = ext" by simp
      with try_openai_json_Some [OF e] show ?thesis by simp
    qed
  qed
qed

lemma unreachable_try:
  "try_openai_json unreachable ''NLP'' ''Topic'' =
     ([chat_request unreachable ''sk-test'' ''NLP'' ''Topic''], Inr None)"
  by code_simp

lemma short_circuit:
  "strip (getenv w ''OPENAI_API_KEY'' '''') = [] \<Longrightarrow> try_openai_json w topic query = ([], Inr None)"
  by (simp add: try_openai_json_def)

lemma null_provider_try:
  "try_openai_json null_provider ''NLP'' ''Topic'' =
     ([chat_request null_provider ''sk-test'' ''NLP'' ''Topic''], Inr (Some null_report))"
  by code_simp

subsection \<open>Running the body of \<open>_fallback_report\<close>\<close>

lemma run_simulate_sources:
  "eval a [''topic'' \<mapsto> JString topic] simulate_sources_body = ([], Inr (JArray (simulate_sources topic)))"
  by (simp add: simulate_sources_body_def simulate_sources_def)

lemma run_fallback_report_value:
  "run_fallback_report a topic query = ([], Inr (JObject (fallback_report topic query)))"
  by (simp add: run_fallback_report_def fallback_report_body_def arguments_def
        run_simulate_sources fallback_report_def)

lemma eval_reads_outside:
  "eval \<lparr>outside = w, clock = 1\<rparr> Map.empty Now \<noteq> eval \<lparr>outside = w, clock = 2\<rparr> Map.empty Now"
  "eval \<lparr>outside = no_credential, clock = c\<rparr> Map.empty (Getenv ''OPENAI_API_KEY'' '''') \<noteq>
   eval \<lparr>outside = unreachable, clock = c\<rparr> Map.empty (Getenv ''OPENAI_API_KEY'' '''')"
  by (simp_all add: getenv_def no_credential_def unreachable_def)

subsection \<open>The user prompt on a topic and a query of one line\<close>

text \<open>
  When neither the topic nor the query has a line break, every line of the interpolated
  template has the indent of twelve blanks, \<open>dedent\<close> removes it, and the prompt is
  the template with topic and query in place: it contains both, and the eleven key names.
\<close>

lemma split_nl_line: "NL \<notin> set l \<Longrightarrow> split_nl l = [l]"
  by (induction l) auto

lemma split_nl_append: "NL \<notin> set l \<Longrightarrow> split_nl (l @ NL # rest) = l # split_nl rest"
  by (induction l) auto

lemma split_nl_join:
  "ls \<noteq> [] \<Longrightarrow> \<forall>l \<in> set ls. NL \<notin> set l \<Longrightarrow> split_nl (join_nl ls) = ls"
  by (induction ls rule: join_nl.induct) (simp_all add: split_nl_line split_nl_append)

lemma strip_core:
  assumes "s \<noteq> []" "\<not> isspace (hd s)" "\<not> isspace (last s)"
  shows "strip (NL # s @ [NL]) = s"
proof -
  have nl: "isspace NL" by (simp add: isspace_def NL_def)
  from assms obtain c cs where s: "s = c # cs" by (cases s) auto
  with assms have c: "\<not> isspace c" by simp
  have "dropWhile isspace (NL # s @ [NL]) = s @ [NL]"
    using nl c s by simp
  moreover have "dropWhile isspace (rev (s @ [NL])) = rev s"
    using nl assms by (cases s rule: rev_cases) auto
  ultimately show ?thesis by (simp add: strip_def)
qed

lemma split_user_prompt_text:
  assumes "NL \<notin> set topic" "NL \<notin> set query"
  shows "split_nl (user_prompt_text topic query) =
    [ '''',
      ''            Student topic: '' @ topic,
      ''            Student research query: '' @ query,
      '''',
      ''            Return JSON with these keys exactly:'',
      ''            abstract, introduction, literature_review, research_gaps,'',
      ''            methodology, simulated_results, conclusion, references,'',
      ''            ppt_outline, viva_questions, datasets_and_tools.'',
      '''',
      ''            Requirements:'',
      ''            - literature_review must include source + finding entries from: Google Scholar, IEEE Xplore, PubMed'',
      ''            - methodology must include design + steps'',
      ''            - simulated_results must include summary + table[] with metric, baseline, proposed'',
      ''            - references must be a list of citation strings'',
      ''            - datasets_and_tools must include datasets[] and tools[]'',
      ''            '' ]"
  unfolding user_prompt_text_def
  by (rule split_nl_join) (use assms in \<open>simp_all add: NL_def\<close>)

lemma dedent_user_prompt_text:
  assumes "NL \<notin> set topic" "NL \<notin> set query"
  shows "dedent (user_prompt_text topic query) =
           join_nl ('''' # user_prompt_lines topic query @ [''''])"
  unfolding dedent_def split_user_prompt_text [OF assms]
  by (simp add: normalize_line_def indents_of_def blank_or_tab_def remove_margin_def
        user_prompt_lines_def del: join_nl.simps)

lemma join_nl_Cons: "ls \<noteq> [] \<Longrightarrow> join_nl (l # ls) = l @ NL # join_nl ls"
  by (cases ls) simp_all

lemma join_nl_snoc: "ls \<noteq> [] \<Longrightarrow> join_nl (ls @ [l]) = join_nl ls @ NL # l"
  by (induction ls rule: join_nl.induct) simp_all

lemma contains_join_nl: "l \<in> set ls \<Longrightarrow> contains l sub \<Longrightarrow> contains (join_nl ls) sub"
proof (induction ls rule: join_nl.induct)
  case 1
  then show ?case by simp
next
  case (2 l')
  then show ?case by simp
next
  case (3 l' v va)
  from "3.prems"(2) obtain p q where l: "l = p @ sub @ q" unfolding contains_iff by blast
  show ?case
  proof (cases "l = l'")
    case True
    with l have "join_nl (l' # v # va) = p @ sub @ (q @ NL # join_nl (v # va))" by simp
    then show ?thesis unfolding contains_iff by blast
  next
    case False
    with "3.prems" have "l \<in> set (v # va)" by simp
    from "3.IH" [OF this "3.prems"(2)] obtain p' q' where "join_nl (v # va) = p' @ sub @ q'"
      unfolding contains_iff by blast
    then have "join_nl (l' # v # va) = (l' @ NL # p') @ sub @ q'" by simp
    then show ?thesis unfolding contains_iff by blast
  qed
qed

lemma build_user_prompt_single_line:
  assumes "NL \<notin> set topic" "NL \<notin> set query"
  shows "build_user_prompt topic query = join_nl (user_prompt_lines topic query)"
proof -
  let ?s = "join_nl (user_prompt_lines topic query)"
  have ne: "user_prompt_lines topic query \<noteq> []" by (simp add: user_prompt_lines_def)
  have "dedent (user_prompt_text topic query) = NL # ?s @ [NL]"
    unfolding dedent_user_prompt_text [OF assms] using ne
    by (simp add: join_nl_Cons join_nl_snoc del: join_nl.simps)
  moreover have "?s \<noteq> []" "\<not> isspace (hd ?s)" "\<not> isspace (last ?s)"
    by (simp_all add: user_prompt_lines_def isspace_def)
  ultimately show ?thesis
    by (simp add: build_user_prompt_def strip_core)
qed

lemma build_user_prompt_single_line_contains:
  assumes "NL \<notin> set topic" "NL \<notin> set query"
  shows "contains (build_user_prompt topic query) topic"
    and "contains (build_user_prompt topic query) query"
    and "\<forall>k \<in> REQUIRED_KEYS. contains (build_user_prompt topic query) k"
proof -
  have mid: "contains (p @ s) s" for p s :: string
    using contains_middle [of p s "[]"] by simp
  show "contains (build_user_prompt topic query) topic"
    unfolding build_user_prompt_single_line [OF assms]
    by (rule contains_join_nl [OF _ mid [of "''Student topic: ''" topic]])
       (simp add: user_prompt_lines_def)
  show "contains (build_user_prompt topic query) query"
    unfolding build_user_prompt_single_line [OF assms]
    by (rule contains_join_nl [OF _ mid [of "''Student research query: ''" query]])
       (simp add: user_prompt_lines_def)
  have k1: "contains (join_nl (user_prompt_lines topic query)) k"
    if "contains ''abstract, introduction, literature_review, research_gaps,'' k" for k
    by (rule contains_join_nl [OF _ that]) (simp add: user_prompt_lines_def)
  have k2: "contains (join_nl (user_prompt_lines topic query)) k"
    if "contains ''methodology, simulated_results, conclusion, references,'' k" for k
    by (rule contains_join_nl [OF _ that]) (simp add: user_prompt_lines_def)
  have k3: "contains (join_nl (user_prompt_lines topic query)) k"
    if "contains ''ppt_outline, viva_questions, datasets_and_tools.'' k" for k
    by (rule contains_join_nl [OF _ that]) (simp add: user_prompt_lines_def)
  show "\<forall>k \<in> REQUIRED_KEYS. contains (build_user_prompt topic query) k"
    unfolding REQUIRED_KEYS_def build_user_prompt_single_line [OF assms]
    apply (simp only: ball_simps(7) ball_empty simp_thms)
    apply (intro conjI)
              apply (rule k1, code_simp)
             apply (rule k1, code_simp)
            apply (rule k1, code_simp)
           apply (rule k1, code_simp)
          apply (rule k2, code_simp)
         apply (rule k2, code_simp)
        apply (rule k2, code_simp)
       apply (rule k2, code_simp)
      apply (rule k3, code_simp)
     apply (rule k3, code_simp)
    apply (rule k3, code_simp)
    done
qed

section \<open>Claims\<close>

text \<open>
  C1 (totality of \<open>generate_report\<close>). The claim is that \<open>generate_report\<close> returns a
  report with the eleven required keys whatever the provider does. The code does not: with a
  credential set and a provider that answers \<open>{"choices": []}\<close>, the subscript \<open>[0]\<close>
  raises \<open>IndexError\<close>, which the \<open>except\<close> clause of \<open>_try_openai_json\<close> does not
  list, and \<open>generate_report\<close> has no handler, so the exception reaches the caller and no
  report is returned. The theorem evaluates \<open>generate_report\<close> on that input.
\<close>

theorem generate_report_raises:
  "generate_report empty_choices ''Computer Vision'' ''How can students improve defect detection?'' =
     ([chat_request empty_choices ''sk-test'' ''Computer Vision'' ''How can students improve defect detection?''],
      Inl IndexError)"
  by code_simp

text \<open>
  C2 (\<open>_try_openai_json\<close> never raises). The claim names a response whose list of choices
  is empty and a content that parses to a JSON value that is no object. On the first the
  function raises \<open>IndexError\<close>, on the second \<open>AttributeError\<close> (a list has no
  \<open>keys\<close>); neither is in the \<open>except\<close> clause. The theorem evaluates the function on
  both.
\<close>

theorem try_openai_json_raises:
  "snd (try_openai_json empty_choices ''NLP'' ''Topic'') = Inl IndexError \<and>
   snd (try_openai_json list_content ''NLP'' ''Topic'') = Inl AttributeError"
  by code_simp

text \<open>
  C3 (every returned report has the eleven keys with the shapes of the data model). On the
  external path only the presence of the keys is checked: a provider whose object maps every
  required key to \<open>null\<close> passes the check and is returned as it is.
\<close>

theorem external_shape_counterexample:
  "snd (generate_report null_provider ''NLP'' ''Topic'') = Inr null_report \<and>
   \<not> report_shape null_report"
  by code_simp

text \<open>
  C3, as amended: every report that \<open>generate_report\<close> returns has the eleven required
  keys; when the fallback path produced it (\<open>_try_openai_json\<close> returned \<open>None\<close>) it
  also has the shapes of the data model. A report of the external path is only known to have
  the keys.
\<close>

theorem returned_report_keys_and_fallback_shape:
  assumes "generate_report w topic query = (sent, Inr r)"
  shows "REQUIRED_KEYS \<subseteq> set (map fst r) \<and>
         (snd (try_openai_json w topic query) = Inr None \<longrightarrow> report_shape r)"
proof
  show "REQUIRED_KEYS \<subseteq> set (map fst r)"
    using assms by (rule generate_report_keys)
next
  show "snd (try_openai_json w topic query) = Inr None \<longrightarrow> report_shape r"
  proof
    assume "snd (try_openai_json w topic query) = Inr None"
    then have "try_openai_json w topic query = (fst (try_openai_json w topic query), Inr None)"
      by (metis prod.collapse)
    from generate_report_fallback [OF this] assms have "r = tagged_fallback topic query"
      by simp
    then show "report_shape r" by (simp only: shape_tagged_fallback)
  qed
qed

theorem returned_report_keys_and_fallback_shape_witness:
  "generate_report unreachable ''NLP'' ''Topic'' =
     ([chat_request unreachable ''sk-test'' ''NLP'' ''Topic''], Inr (tagged_fallback ''NLP'' ''Topic'')) \<and>
   snd (try_openai_json unreachable ''NLP'' ''Topic'') = Inr None \<and>
   REQUIRED_KEYS \<subseteq> set (map fst (tagged_fallback ''NLP'' ''Topic'')) \<and>
   report_shape (tagged_fallback ''NLP'' ''Topic'')"
proof -
  have g: "generate_report unreachable ''NLP'' ''Topic'' =
     ([chat_request unreachable ''sk-test'' ''NLP'' ''Topic''], Inr (tagged_fallback ''NLP'' ''Topic''))"
    by (simp add: generate_report_def unreachable_try)
  have t: "snd (try_openai_json unreachable ''NLP'' ''Topic'') = Inr None"
    by (simp add: unreachable_try)
  from returned_report_keys_and_fallback_shape [OF g] g t show ?thesis by simp
qed

text \<open>
  C4 (provenance tagging). The claim says that on the external path no \<open>prompt_debug\<close>
  key is present at all. The external object is returned as received and its extra keys are
  tolerated, so a provider whose object carries a \<open>prompt_debug\<close> key of its own yields
  a report with that key.
\<close>

theorem provenance_counterexample:
  "snd (try_openai_json tagging_provider ''NLP'' ''Topic'') = Inr (Some tagged_report) \<and>
   snd (generate_report tagging_provider ''NLP'' ''Topic'') = Inr tagged_report \<and>
   map_of tagged_report ''prompt_debug'' = Some (JObject [(''source'', JString ''provider'')])"
  by code_simp

text \<open>
  C4, as amended: when \<open>generate_report\<close> takes the fallback path, the report has a
  \<open>prompt_debug\<close> key whose value holds the two prompts of \<open>PromptEngine\<close> for the
  same topic and query and the source \<open>fallback\<close>; when it takes the external path, the
  report is the received object, unchanged, so \<open>generate_report\<close> adds no
  \<open>prompt_debug\<close> key and one is present only if the provider sent it.
\<close>

theorem provenance_two_branches:
  "(try_openai_json w topic query = (sent, Inr None) \<longrightarrow>
      (\<exists>r. generate_report w topic query = (sent, Inr r) \<and>
           map_of r ''prompt_debug'' =
             Some (JObject [ (''system_prompt'', JString build_system_prompt),
                             (''user_prompt'', JString (build_user_prompt topic query)),
                             (''source'', JString ''fallback'') ]))) \<and>
   (try_openai_json w topic query = (sent, Inr (Some external)) \<longrightarrow>
      generate_report w topic query = (sent, Inr external))"
proof (intro conjI impI)
  assume t: "try_openai_json w topic query = (sent, Inr None)"
  have "map_of (tagged_fallback topic query) ''prompt_debug'' = Some (prompt_debug topic query)"
    by (simp add: tagged_fallback_def map_of_dict_set)
  with generate_report_fallback [OF t]
  show "\<exists>r. generate_report w topic query = (sent, Inr r) \<and>
           map_of r ''prompt_debug'' =
             Some (JObject [ (''system_prompt'', JString build_system_prompt),
                             (''user_prompt'', JString (build_user_prompt topic query)),
                             (''source'', JString ''fallback'') ])"
    by (simp add: prompt_debug_def)
next
  assume "try_openai_json w topic query = (sent, Inr (Some external))"
  then show "generate_report w topic query = (sent, Inr external)"
    by (rule generate_report_external)
qed

theorem provenance_two_branches_witness:
  "(\<exists>r. generate_report unreachable ''NLP'' ''Topic'' =
          ([chat_request unreachable ''sk-test'' ''NLP'' ''Topic''], Inr r) \<and>
        map_of r ''prompt_debug'' =
          Some (JObject [ (''system_prompt'', JString build_system_prompt),
                          (''user_prompt'', JString (build_user_prompt ''NLP'' ''Topic'')),
                          (''source'', JString ''fallback'') ])) \<and>
   generate_report null_provider ''NLP'' ''Topic'' =
     ([chat_request null_provider ''sk-test'' ''NLP'' ''Topic''], Inr null_report)"
  using provenance_two_branches [of unreachable "''NLP''" "''Topic''" 
          "[chat_request unreachable ''sk-test'' ''NLP'' ''Topic'']" null_report]
        provenance_two_branches [of null_provider "''NLP''" "''Topic''" 
          "[chat_request null_provider ''sk-test'' ''NLP'' ''Topic'']" null_report]
        unreachable_try null_provider_try
  by simp

text \<open>
  C5 (external short-circuit). With \<open>OPENAI_API_KEY\<close> unset or empty,
  \<open>_try_openai_json\<close> returns \<open>None\<close> and no request is sent.
\<close>

theorem no_credential_short_circuit:
  "environ w ''OPENAI_API_KEY'' = None \<or> environ w ''OPENAI_API_KEY'' = Some '''' \<Longrightarrow>
   try_openai_json w topic query = ([], Inr None)"
  by (rule short_circuit) (auto simp: getenv_def strip_def)

theorem no_credential_short_circuit_witness:
  "environ no_credential ''OPENAI_API_KEY'' = None \<and>
   try_openai_json no_credential ''NLP'' ''Topic'' = ([], Inr None)"
  using no_credential_short_circuit [of no_credential "''NLP''" "''Topic''"]
  by (simp add: no_credential_def)

text \<open>
  C6 (schema gate). With a credential set, when the response parses, its first choice carries
  a text content and that content parses to an object, \<open>_try_openai_json\<close> returns that
  object unchanged if its keys include every required key, and \<open>None\<close> otherwise. The
  witness runs a provider whose object has an extra key, and one whose object lacks required
  keys.
\<close>

theorem schema_gate:
  assumes "strip (getenv w ''OPENAI_API_KEY'' '''') = api_key" and "api_key \<noteq> []"
    and "urlopen w (chat_request w api_key topic query) 45 = Inr body"
    and "json_loads w body = Some raw"
    and "message_content raw = Inr (JString content)"
    and "json_loads w content = Some (JObject parsed)"
  shows "try_openai_json w topic query =
           ([chat_request w api_key topic query],
            Inr (if REQUIRED_KEYS \<subseteq> set (map fst parsed) then Some parsed else None))"
  using assms by (simp add: try_openai_json_def try_block_def bind_def)

theorem schema_gate_witness:
  "try_openai_json tagging_provider ''NLP'' ''Topic'' =
     ([chat_request tagging_provider ''sk-test'' ''NLP'' ''Topic''], Inr (Some tagged_report)) \<and>
   try_openai_json partial_provider ''NLP'' ''Topic'' =
     ([chat_request partial_provider ''sk-test'' ''NLP'' ''Topic''], Inr None)"
proof -
  have key: "strip (getenv tagging_provider ''OPENAI_API_KEY'' '''') = ''sk-test''"
    "strip (getenv partial_provider ''OPENAI_API_KEY'' '''') = ''sk-test''"
    by code_simp+
  have ne: "''sk-test'' \<noteq> []" by simp
  have net: "urlopen tagging_provider (chat_request tagging_provider ''sk-test'' ''NLP'' ''Topic'') 45 =
      Inr (completion_text tagged_text)"
    "urlopen partial_provider (chat_request partial_provider ''sk-test'' ''NLP'' ''Topic'') 45 =
      Inr (completion_text partial_text)"
    by (simp_all add: tagging_provider_def partial_provider_def provider_def)
  have raw: "json_loads tagging_provider (completion_text tagged_text) = Some (completion tagged_text)"
    "json_loads partial_provider (completion_text partial_text) = Some (completion partial_text)"
    by (simp_all add: tagging_provider_def partial_provider_def provider_def)
  have content: "message_content (completion c) = Inr (JString c)" for c
    by (simp add: message_content_def completion_def bind_def)
  have parsed: "json_loads tagging_provider tagged_text = Some (JObject tagged_report)"
    "json_loads partial_provider partial_text =
       Some (JObject [(''abstract'', JString ''A''), (''introduction'', JString ''B'')])"
    by code_simp+
  have sup: "REQUIRED_KEYS \<subseteq> set (map fst tagged_report)"
    "\<not> REQUIRED_KEYS \<subseteq> set (map fst [(''abstract'', JString ''A''), (''introduction'', JString ''B'')])"
    by code_simp+
  from schema_gate [OF key(1) ne net(1) raw(1) content parsed(1)]
       schema_gate [OF key(2) ne net(2) raw(2) content parsed(2)] sup
  show ?thesis by (simp only: if_True if_False simp_thms)
qed

text \<open>
  C7 (fixed cardinality of the fallback literature review). The \<open>literature_review\<close> of
  the fallback report has exactly three entries, with the sources Google Scholar, IEEE Xplore
  and PubMed in this order, and the finding of each contains the topic.
\<close>

theorem literature_review_three_sources:
  "\<exists>f1 f2 f3.
     map_of (fallback_report topic query) ''literature_review'' =
       Some (JArray
         [ JObject [(''source'', JString ''Google Scholar''), (''finding'', JString f1)],
           JObject [(''source'', JString ''IEEE Xplore''), (''finding'', JString f2)],
           JObject [(''source'', JString ''PubMed''), (''finding'', JString f3)] ]) \<and>
     contains f1 topic \<and> contains f2 topic \<and> contains f3 topic"
  unfolding fallback_report_def simulate_sources_def
  by (simp del: append.simps contains.simps add: contains_middle)

text \<open>
  C8 (determinism of the fallback). The body of \<open>_fallback_report\<close> is run by the
  evaluator, which has the environment variables, the network and the clock at hand. For
  every topic and query and any two states of the outside, the two runs give the same
  result; no request is sent; and the result is the report \<open>fallback_report\<close> of the
  two arguments. The statement depends on the body: an expression that reads the clock or
  the environment gives different results in different states (\<open>eval_reads_outside\<close>).
  The witness compares a state without a credential and a state with a credential and an
  unreachable network, at two different times.
\<close>

theorem fallback_report_deterministic:
  "run_fallback_report a1 topic query = run_fallback_report a2 topic query \<and>
   fst (run_fallback_report a1 topic query) = [] \<and>
   snd (run_fallback_report a1 topic query) = Inr (JObject (fallback_report topic query))"
  by (simp add: run_fallback_report_value)

theorem fallback_report_deterministic_witness:
  "run_fallback_report \<lparr>outside = no_credential, clock = 0\<rparr> ''NLP'' ''Topic'' =
     run_fallback_report \<lparr>outside = unreachable, clock = 1762190000\<rparr> ''NLP'' ''Topic'' \<and>
   fst (run_fallback_report \<lparr>outside = no_credential, clock = 0\<rparr> ''NLP'' ''Topic'') = []"
proof -
  note d = fallback_report_deterministic
    [of "\<lparr>outside = no_credential, clock = 0\<rparr>" "''NLP''" "''Topic''"
        "\<lparr>outside = unreachable, clock = 1762190000\<rparr>"]
  show ?thesis
    by (rule conjI [OF conjunct1 [OF d] conjunct1 [OF conjunct2 [OF d]]])
qed

text \<open>
  C9 (the user prompt contains topic and query verbatim, and the eleven key names). The
  f-string is interpolated first and \<open>dedent\<close> runs on the result, so the lines of the
  topic and of the query are treated as lines of the template. With the query
  \<open>Line one\<close>, a line holding one blank, \<open>Line two\<close>: the blank line is emptied, and
  since \<open>Line two\<close> has no indent the margin is empty and the twelve blanks of the template
  stay. The prompt no longer contains the query. The theorem evaluates
  \<open>build_user_prompt\<close> on that input.
\<close>

theorem build_user_prompt_alters_query:
  "build_user_prompt ''Edge AI'' ''Line one\<newline> \<newline>Line two'' =
     join_nl
       [ ''Student topic: Edge AI'',
         ''            Student research query: Line one'',
         '''',
         ''Line two'',
         '''',
         ''            Return JSON with these keys exactly:'',
         ''            abstract, introduction, literature_review, research_gaps,'',
         ''            methodology, simulated_results, conclusion, references,'',
         ''            ppt_outline, viva_questions, datasets_and_tools.'',
         '''',
         ''            Requirements:'',
         ''            - literature_review must include source + finding entries from: Google Scholar, IEEE Xplore, PubMed'',
         ''            - methodology must include design + steps'',
         ''            - simulated_results must include summary + table[] with metric, baseline, proposed'',
         ''            - references must be a list of citation strings'',
         ''            - datasets_and_tools must include datasets[] and tools[]'' ] \<and>
   \<not> contains (build_user_prompt ''Edge AI'' ''Line one\<newline> \<newline>Line two'')
         ''Line one\<newline> \<newline>Line two''"
  by code_simp

text \<open>
  C10 (whitespace-only credential). When every character of \<open>OPENAI_API_KEY\<close> is
  whitespace, \<open>_try_openai_json\<close> returns \<open>None\<close> and no request is sent, as for
  an absent credential.
\<close>

theorem blank_credential_short_circuit:
  "environ w ''OPENAI_API_KEY'' = Some k \<Longrightarrow> list_all isspace k \<Longrightarrow>
   try_openai_json w topic query = ([], Inr None)"
  by (rule short_circuit) (simp add: getenv_def strip_blank)

theorem blank_credential_short_circuit_witness:
  "environ blank_credential ''OPENAI_API_KEY'' = Some [CHR '' '', CHR 0x09, NL] \<and>
   list_all isspace [CHR '' '', CHR 0x09, NL] \<and>
   try_openai_json blank_credential ''NLP'' ''Topic'' = ([], Inr None)"
  using blank_credential_short_circuit [of blank_credential "[CHR '' '', CHR 0x09, NL]" "''NLP''" "''Topic''"]
  by (simp add: blank_credential_def isspace_def NL_def)

end
